theory Spec2Isabelle
  imports Main "HOL-Library.AList"
begin

section \<open>Go values the gateway handles\<close>

text \<open>
  The gateway of \<^verbatim>\<open>main.go\<close> is five gin handlers around one bucket handle of the
  Aliyun OSS SDK: existence check, download, upload, delete and list. (The greeting at
  \<^verbatim>\<open>/\<close>, the placeholder \<^verbatim>\<open>/invertcode\<close> and the start-up code are not
  modelled.) Byte streams (an uploaded file, an object's content) are strings: a
  \<^typ>\<open>char\<close> is one byte.
\<close>

type_synonym bytes = string

subsection \<open>What \<^verbatim>\<open>fmt\<close> prints\<close>

definition digit :: "nat \<Rightarrow> char" where
  "digit d = ''0123456789'' ! d"

fun decimal :: "nat \<Rightarrow> string" where
  "decimal n = (if n < 10 then [digit n] else decimal (n div 10) @ [digit (n mod 10)])"

text \<open>The verb \<^verbatim>\<open>%d\<close> on an integer: the decimal digits, with a sign when negative.\<close>

definition sprint_d :: "int \<Rightarrow> string" where
  "sprint_d i = (if i < 0 then ''-'' @ decimal (nat (- i)) else decimal (nat i))"

text \<open>
  The verb \<^verbatim>\<open>%d\<close> on a \<^verbatim>\<open>[]string\<close>: \<^verbatim>\<open>fmt\<close> prints a slice as its elements
  between brackets, separated by one space, each under the same verb, and \<^verbatim>\<open>%d\<close>
  is not a verb of strings, so each element \<^verbatim>\<open>s\<close> is printed as the bad-verb
  notice \<^verbatim>\<open>%!d(string=s)\<close>.
\<close>

definition bad_verb_d :: "string \<Rightarrow> string" where
  "bad_verb_d s = ''%!d(string='' @ s @ '')''"

fun join_space :: "string list \<Rightarrow> string" where
  "join_space [] = []"
| "join_space [x] = x"
| "join_space (x # y # ys) = x @ '' '' @ join_space (y # ys)"

definition sprint_d_strings :: "string list \<Rightarrow> string" where
  "sprint_d_strings xs = ''['' @ join_space (map bad_verb_d xs) @ '']''"

text \<open>The verb \<^verbatim>\<open>%s\<close> between the apostrophes of \<^verbatim>\<open>"Object '%s' ..."\<close>.\<close>

definition quoted :: "string \<Rightarrow> string" where
  "quoted s = [CHR 0x27] @ s @ [CHR 0x27]"

subsection \<open>Errors\<close>

text \<open>
  The fields of \<^verbatim>\<open>oss.ServiceError\<close> that \<^verbatim>\<open>main.go\<close> reads (\<^verbatim>\<open>Code\<close>,
  \<^verbatim>\<open>Message\<close>) and those its \<^verbatim>\<open>Error()\<close> text prints.
\<close>

record ServiceError =
  StatusCode :: nat
  Code :: string
  Message :: string
  RequestID :: string

text \<open>
  A non-nil Go \<^verbatim>\<open>error\<close> by its dynamic type, which is what the type assertion
  \<^verbatim>\<open>err.(*oss.ServiceError)\<close> of the existence check inspects. The SDK declares
  \<^verbatim>\<open>func (e ServiceError) Error() string\<close> on the value type, so both
  \<^verbatim>\<open>oss.ServiceError\<close> and \<^verbatim>\<open>*oss.ServiceError\<close> are errors; the SDK's calls return
  the value type (its own \<^verbatim>\<open>IsObjectExist\<close> asserts \<^verbatim>\<open>err.(ServiceError)\<close>). Every
  other error (a transport failure, \<^verbatim>\<open>http.ErrMissingFile\<close>) is kept by its text.
\<close>

datatype go_error =
    PtrServiceError ServiceError
  | ValServiceError ServiceError
  | OtherError string

definition ServiceError_text :: "ServiceError \<Rightarrow> string" where
  "ServiceError_text e =
     ''oss: service returned error: StatusCode='' @ decimal (StatusCode e) @
     '', ErrorCode='' @ Code e @
     '', ErrorMessage='' @ [CHR 0x22] @ Message e @ [CHR 0x22] @
     '', RequestId='' @ RequestID e"

fun Error :: "go_error \<Rightarrow> string" where
  "Error (PtrServiceError e) = ServiceError_text e"
| "Error (ValServiceError e) = ServiceError_text e"
| "Error (OtherError s) = s"

subsection \<open>The bucket handle\<close>

text \<open>
  \<^verbatim>\<open>http.Header\<close> is a \<^verbatim>\<open>map[string][]string\<close>; indexing it at a missing key gives
  the nil slice.
\<close>

type_synonym http_Header = "string \<Rightarrow> string list"

record ObjectProperties =
  Key :: string

record ListObjectsResult =
  Objects :: "ObjectProperties list"
  IsTruncated :: bool
  NextMarker :: string

text \<open>
  The five methods of \<^verbatim>\<open>oss.Bucket\<close> the handlers call, over a store state \<^typ>\<open>'s\<close>.
  Each returns what the Go method returns (a value and an error, both always
  present in Go) and the store after the call.
\<close>

record 's Bucket =
  GetObjectMeta :: "string \<Rightarrow> 's \<Rightarrow> (http_Header \<times> go_error option) \<times> 's"
  GetObject :: "string \<Rightarrow> 's \<Rightarrow> (bytes option \<times> go_error option) \<times> 's"
  PutObject :: "string \<Rightarrow> bytes \<Rightarrow> 's \<Rightarrow> go_error option \<times> 's"
  DeleteObject :: "string \<Rightarrow> 's \<Rightarrow> go_error option \<times> 's"
  ListObjects :: "string \<Rightarrow> 's \<Rightarrow> (ListObjectsResult \<times> go_error option) \<times> 's"

section \<open>What a handler does\<close>

text \<open>
  A handler's effects, in the order it performs them: the lines it logs, the calls it
  makes on the gin context (\<^verbatim>\<open>c.Header\<close>, \<^verbatim>\<open>c.JSON\<close>, the \<^verbatim>\<open>io.Copy\<close> into
  \<^verbatim>\<open>c.Writer\<close>) and the calls it makes on the bucket. A \<^verbatim>\<open>gin.H\<close> holds
  strings and, for the listing, a \<^verbatim>\<open>[]string\<close> (the nil slice is the empty list).
\<close>

datatype jvalue = JString string | JStrings "string list"

type_synonym gin_H = "(string \<times> jvalue) list"

datatype event =
    Log string
  | Header string string
  | JSON nat gin_H
  | Copy bytes
  | GetObjectMetaCall string
  | GetObjectCall string
  | PutObjectCall string bytes
  | DeleteObjectCall string
  | ListObjectsCall string

record 's world =
  store :: 's
  trace :: "event list"

text \<open>
  A statement leaves the handler running, ends the process (\<^verbatim>\<open>log.Fatalf\<close> is a
  print followed by \<^verbatim>\<open>os.Exit(1)\<close>) or panics (a method called on nil).
\<close>

datatype 's run = Running "'s world" | Exited nat "'s world" | Panicked "'s world"

fun world_of :: "'s run \<Rightarrow> 's world" where
  "world_of (Running w) = w"
| "world_of (Exited c w) = w"
| "world_of (Panicked w) = w"

definition andThen :: "('s world \<Rightarrow> 's run) \<Rightarrow> ('s world \<Rightarrow> 's run) \<Rightarrow> 's world \<Rightarrow> 's run" where
  "andThen p q w = (case p w of Running w' \<Rightarrow> q w' | Exited c w' \<Rightarrow> Exited c w' | Panicked w' \<Rightarrow> Panicked w')"

definition emit :: "event \<Rightarrow> 's world \<Rightarrow> 's world" where
  "emit e w = w\<lparr>trace := trace w @ [e]\<rparr>"

definition log_Printf :: "string \<Rightarrow> 's world \<Rightarrow> 's run" where
  "log_Printf msg w = Running (emit (Log msg) w)"

definition log_Println :: "string \<Rightarrow> 's world \<Rightarrow> 's run" where
  "log_Println msg w = Running (emit (Log msg) w)"

definition log_Fatalf :: "string \<Rightarrow> 's world \<Rightarrow> 's run" where
  "log_Fatalf msg w = Exited 1 (emit (Log msg) w)"

definition c_JSON :: "nat \<Rightarrow> gin_H \<Rightarrow> 's world \<Rightarrow> 's run" where
  "c_JSON code obj w = Running (emit (JSON code obj) w)"

definition c_Header :: "string \<Rightarrow> string \<Rightarrow> 's world \<Rightarrow> 's run" where
  "c_Header key val w = Running (emit (Header key val) w)"

definition bucket_GetObjectMeta ::
  "'s Bucket \<Rightarrow> string \<Rightarrow> 's world \<Rightarrow> (http_Header \<times> go_error option) \<times> 's world" where
  "bucket_GetObjectMeta bucket objectKey w =
     (case GetObjectMeta bucket objectKey (store w) of
        (r, s) \<Rightarrow> (r, emit (GetObjectMetaCall objectKey) (w\<lparr>store := s\<rparr>)))"

definition bucket_GetObject ::
  "'s Bucket \<Rightarrow> string \<Rightarrow> 's world \<Rightarrow> (bytes option \<times> go_error option) \<times> 's world" where
  "bucket_GetObject bucket objectKey w =
     (case GetObject bucket objectKey (store w) of
        (r, s) \<Rightarrow> (r, emit (GetObjectCall objectKey) (w\<lparr>store := s\<rparr>)))"

definition bucket_PutObject ::
  "'s Bucket \<Rightarrow> string \<Rightarrow> bytes \<Rightarrow> 's world \<Rightarrow> go_error option \<times> 's world" where
  "bucket_PutObject bucket objectKey reader w =
     (case PutObject bucket objectKey reader (store w) of
        (r, s) \<Rightarrow> (r, emit (PutObjectCall objectKey reader) (w\<lparr>store := s\<rparr>)))"

definition bucket_DeleteObject ::
  "'s Bucket \<Rightarrow> string \<Rightarrow> 's world \<Rightarrow> go_error option \<times> 's world" where
  "bucket_DeleteObject bucket objectKey w =
     (case DeleteObject bucket objectKey (store w) of
        (r, s) \<Rightarrow> (r, emit (DeleteObjectCall objectKey) (w\<lparr>store := s\<rparr>)))"

definition bucket_ListObjects ::
  "'s Bucket \<Rightarrow> string \<Rightarrow> 's world \<Rightarrow> (ListObjectsResult \<times> go_error option) \<times> 's world" where
  "bucket_ListObjects bucket marker w =
     (case ListObjects bucket marker (store w) of
        (r, s) \<Rightarrow> (r, emit (ListObjectsCall marker) (w\<lparr>store := s\<rparr>)))"

section \<open>The handlers of \<^verbatim>\<open>main.go\<close>\<close>

subsection \<open>\<^verbatim>\<open>GET /isexist/:name\<close>\<close>

definition handle_isexist :: "'s Bucket \<Rightarrow> string \<Rightarrow> 's world \<Rightarrow> 's run" where
  "handle_isexist bucket name w =
     (case bucket_GetObjectMeta bucket name w of
        ((_, err), w1) \<Rightarrow>
          (case err of
             Some e \<Rightarrow>
               (case e of
                  PtrServiceError ossError \<Rightarrow>
                    if Code ossError = ''NoSuchKey''
                    then c_JSON 200
                           [(''message'', JString (''Object '' @ quoted name @ '' does not exist''))] w1
                    else c_JSON 500
                           [(''message'', JString (''Error checking object: '' @ Message ossError))] w1
                | _ \<Rightarrow>
                    c_JSON 500 [(''message'', JString (''Error: '' @ Error e))] w1)
           | None \<Rightarrow>
               c_JSON 200 [(''message'', JString (''Object '' @ quoted name @ '' exists''))] w1))"

subsection \<open>\<^verbatim>\<open>GET /download/:object\<close>\<close>

text \<open>
  What the download reads from its host: the clock (read twice by
  \<^verbatim>\<open>generateRandomFilename\<close>), the values the global generator of \<^verbatim>\<open>math/rand\<close>
  yields once seeded, the MIME table behind \<^verbatim>\<open>mime.TypeByExtension\<close> (Go's
  built-in entries, extended by the host's \<^verbatim>\<open>mime.types\<close> files where there are
  any) and whether writing to the client fails.
\<close>

record host =
  UnixNano :: int
  Unix :: int
  rand_source :: "int \<Rightarrow> nat \<Rightarrow> nat"
  TypeByExtension :: "string \<Rightarrow> string"
  client_write :: "go_error option"

text \<open>
  \<^verbatim>\<open>filepath.Ext\<close>: the suffix from the last dot of the last path element, found
  by scanning back from the end until a dot or a separator; \<open>ext_scan path (Suc i)\<close>
  is the loop at index \<open>i\<close>.
\<close>

fun ext_scan :: "string \<Rightarrow> nat \<Rightarrow> string" where
  "ext_scan path 0 = []"
| "ext_scan path (Suc i) =
     (if path ! i = CHR ''/'' then []
      else if path ! i = CHR ''.'' then drop i path
      else ext_scan path i)"

definition filepath_Ext :: "string \<Rightarrow> string" where
  "filepath_Ext path = ext_scan path (length path)"

definition charset :: string where
  "charset = ''abcdefghijklmnopqrstuvwxyzABCDEFGHIJKLMNOPQRSTUVWXYZ0123456789''"

text \<open>
  \<^verbatim>\<open>rand.Intn(n)\<close> yields a value below \<open>n\<close>: the generator's \<open>i\<close>-th value
  after the seed, reduced below \<open>n\<close>.
\<close>

definition rand_Intn :: "host \<Rightarrow> int \<Rightarrow> nat \<Rightarrow> nat \<Rightarrow> nat" where
  "rand_Intn h seed i n = rand_source h seed i mod n"

text \<open>The loop \<^verbatim>\<open>for i := 0; i < length; i++\<close> of \<^verbatim>\<open>generateRandomFilename\<close>.\<close>

function random_loop :: "host \<Rightarrow> int \<Rightarrow> nat \<Rightarrow> nat \<Rightarrow> string \<Rightarrow> string" where
  "random_loop h seed i len filename =
     (if i < len
      then random_loop h seed (Suc i) len
             (filename @ [charset ! rand_Intn h seed i (length charset)])
      else filename)"
  by pat_completeness auto
termination
  by (relation "measure (\<lambda>(h, seed, i, len, filename). len - i)") auto

definition generateRandomFilename :: "host \<Rightarrow> string \<Rightarrow> string" where
  "generateRandomFilename h ext =
     (let seed = UnixNano h;
          filename = random_loop h seed 0 10 [];
          timestamp = Unix h
      in sprint_d timestamp @ ''_'' @ filename @ ext)"

text \<open>Lines 86 to 90: the extension the download works with.\<close>

definition download_ext :: "string \<Rightarrow> string" where
  "download_ext objectName =
     (let ext = filepath_Ext objectName in if ext = [] then ''.bin'' else ext)"

definition io_Copy :: "host \<Rightarrow> bytes \<Rightarrow> 's world \<Rightarrow> go_error option \<times> 's world" where
  "io_Copy h body w = (client_write h, emit (Copy body) w)"

text \<open>
  Lines 111 to 131, reached with the body \<^verbatim>\<open>GetObject\<close> returned; \<^verbatim>\<open>fileSize\<close> is
  the \<^verbatim>\<open>[]string\<close> read from the metadata. A nil body panics at
  \<^verbatim>\<open>defer body.Close()\<close>.
\<close>

definition download_send :: "host \<Rightarrow> string \<Rightarrow> string list \<Rightarrow> bytes option \<Rightarrow> 's world \<Rightarrow> 's run" where
  "download_send h ext fileSize body w =
     (case body of
        None \<Rightarrow> Panicked w
      | Some content \<Rightarrow>
          (let filename = generateRandomFilename h ext in
           andThen (c_Header ''Content-Disposition'' (''attachment; filename='' @ filename))
          (andThen (c_Header ''Content-Type'' (TypeByExtension h ext))
          (andThen (c_Header ''Content-Length'' (sprint_d_strings fileSize))
          (\<lambda>w3. case io_Copy h content w3 of
                   (Some err, w4) \<Rightarrow>
                     andThen (log_Printf (''Failed to send file to client: '' @ Error err))
                             (c_JSON 500 [(''message'', JString ''Failed to send file to client'')]) w4
                 | (None, w4) \<Rightarrow>
                     andThen (log_Println (''File downloaded successfully: '' @ filename))
                             (c_JSON 200 [(''message'', JString ''File downloaded successfully''),
                                          (''file'', JString filename)]) w4))) w))"

definition handle_download :: "host \<Rightarrow> 's Bucket \<Rightarrow> string \<Rightarrow> 's world \<Rightarrow> 's run" where
  "handle_download h bucket objectName w =
     (let ext = download_ext objectName in
      case bucket_GetObjectMeta bucket objectName w of
        ((meta, Some err), w1) \<Rightarrow>
          andThen (log_Printf (''Failed to get object metadata: '' @ Error err))
                  (c_JSON 500 [(''message'', JString ''Failed to get object metadata'')]) w1
      | ((meta, None), w1) \<Rightarrow>
          (let fileSize = meta ''Content-Length'' in
           case bucket_GetObject bucket objectName w1 of
             ((body, err), w2) \<Rightarrow>
               andThen
                 (case err of
                    Some e \<Rightarrow>
                      andThen (log_Fatalf (''Failed to get object: '' @ Error e))
                              (c_JSON 500 [(''message'', JString ''Failed to get object'')])
                  | None \<Rightarrow> Running)
                 (download_send h ext fileSize body) w2))"

subsection \<open>\<^verbatim>\<open>POST /upload\<close>\<close>

text \<open>
  A \<^verbatim>\<open>multipart.FileHeader\<close>: its name and what \<^verbatim>\<open>Open()\<close> gives, the content or
  an error. The request carries the file fields of its multipart form;
  \<^verbatim>\<open>c.FormFile\<close> gives the field's file header, or \<^verbatim>\<open>http.ErrMissingFile\<close> when
  the form has no such field.
\<close>

record FileHeader =
  Filename :: string
  Open :: "go_error + bytes"

record upload_request =
  MultipartForm_File :: "(string \<times> FileHeader) list"

definition c_FormFile :: "upload_request \<Rightarrow> string \<Rightarrow> go_error + FileHeader" where
  "c_FormFile req name =
     (case map_of (MultipartForm_File req) name of
        None \<Rightarrow> Inl (OtherError ''http: no such file'')
      | Some file \<Rightarrow> Inr file)"

definition handle_upload :: "'s Bucket \<Rightarrow> upload_request \<Rightarrow> 's world \<Rightarrow> 's run" where
  "handle_upload bucket req w =
     (case c_FormFile req ''file'' of
        Inl err \<Rightarrow>
          andThen (log_Printf (''Failed to get file from form: '' @ Error err))
                  (c_JSON 400 [(''message'', JString ''Failed to get file'')]) w
      | Inr file \<Rightarrow>
          (let objectName = Filename file in
           case Open file of
             Inl err \<Rightarrow>
               andThen (log_Fatalf (''Failed to open file: '' @ Error err))
                       (c_JSON 400 [(''message'', JString ''Failed to open file'')]) w
           | Inr src \<Rightarrow>
               (case bucket_PutObject bucket objectName src w of
                  (Some err, w1) \<Rightarrow>
                    andThen (log_Fatalf (''Failed to fetch URL: '' @ Error err))
                            (c_JSON 500 [(''message'', JString ''Failed to upload file to OSS'')]) w1
                | (None, w1) \<Rightarrow>
                    andThen (log_Println ''File uploaded successfully.'')
                            (c_JSON 200 [(''message'', JString ''File uploaded successfully'')]) w1)))"

subsection \<open>\<^verbatim>\<open>DELETE /delete/:object\<close>\<close>

definition handle_delete :: "'s Bucket \<Rightarrow> string \<Rightarrow> 's world \<Rightarrow> 's run" where
  "handle_delete bucket objectName w =
     (case bucket_DeleteObject bucket objectName w of
        (Some err, w1) \<Rightarrow>
          c_JSON 500 [(''status'', JString ''error''),
                      (''message'', JString (''Failed to delete object: '' @ Error err))] w1
      | (None, w1) \<Rightarrow>
          c_JSON 200 [(''status'', JString ''success''),
                      (''message'', JString (''Object '' @ quoted objectName @ '' deleted successfully''))] w1)"

subsection \<open>\<^verbatim>\<open>GET /list\<close>\<close>

text \<open>Lines 210 to 215, after the loop.\<close>

definition list_respond :: "string list \<Rightarrow> 's world \<Rightarrow> 's run" where
  "list_respond allObjects =
     andThen (log_Println ''All objects have been listed.'')
             (c_JSON 200 [(''status'', JString ''success''),
                          (''message'', JString ''All objects have been listed''),
                          (''objects'', JStrings allObjects)])"

text \<open>Lines 189 to 195: the error branch of one listing call, which has no \<^verbatim>\<open>return\<close>.\<close>

definition list_check :: "go_error option \<Rightarrow> 's world \<Rightarrow> 's run" where
  "list_check err =
     (case err of
        Some e \<Rightarrow>
          andThen (log_Fatalf (''Failed to list objects: '' @ Error e))
                  (c_JSON 500 [(''status'', JString ''error''),
                               (''message'', JString (''Failed to list objects: '' @ Error e))])
      | None \<Rightarrow> Running)"

text \<open>
  The loop \<^verbatim>\<open>for { ... }\<close> of lines 187 to 208 and what follows it. It runs for as
  long as the store answers with truncated pages, so it is a partial function:
  \<open>None\<close> is a handler that never returns.
\<close>

partial_function (option) list_loop ::
  "'s Bucket \<Rightarrow> string \<Rightarrow> string list \<Rightarrow> 's world \<Rightarrow> 's run option" where
  "list_loop bucket marker allObjects w =
     (case bucket_ListObjects bucket marker w of
        ((lsRes, err), w1) \<Rightarrow>
          (case list_check err w1 of
             Running w2 \<Rightarrow>
               (let allObjects' = allObjects @ map Key (Objects lsRes) in
                if IsTruncated lsRes
                then list_loop bucket (NextMarker lsRes) allObjects' w2
                else Some (list_respond allObjects' w2))
           | Exited c w2 \<Rightarrow> Some (Exited c w2)
           | Panicked w2 \<Rightarrow> Some (Panicked w2)))"

definition handle_list :: "'s Bucket \<Rightarrow> 's world \<Rightarrow> 's run option" where
  "handle_list bucket w = list_loop bucket [] [] w"

section \<open>Stores and hosts to run the handlers on\<close>

definition nil_Header :: http_Header where
  "nil_Header = (\<lambda>k. [])"

definition object_meta :: "bytes \<Rightarrow> http_Header" where
  "object_meta content = nil_Header(''Content-Length'' := [decimal (length content)])"

text \<open>
  What OSS answers for a key it does not hold, as the SDK hands it to its caller: an
  \<^verbatim>\<open>oss.ServiceError\<close> value of status 404 and code \<^verbatim>\<open>NoSuchKey\<close>.
\<close>

definition NoSuchKey :: go_error where
  "NoSuchKey = ValServiceError
     \<lparr>StatusCode = 404, Code = ''NoSuchKey'',
      Message = ''The specified key does not exist.'', RequestID = []\<rparr>"

text \<open>
  Modelled from the spec: the Object Store, which is not part of the repository (the
  bucket of a cloud service behind the SDK). The spec has it as a key-value blob store
  that is the only source of truth for the existence and content of objects, where an
  upload under a key replaces what the key held and deleting an absent key succeeds.
  It is the list of stored objects by key; it never fails and lists the whole bucket
  in one page.
\<close>

definition mem_bucket :: "((string \<times> bytes) list) Bucket" where
  "mem_bucket =
     \<lparr>GetObjectMeta = (\<lambda>k s. case map_of s k of
                                 Some content \<Rightarrow> ((object_meta content, None), s)
                               | None \<Rightarrow> ((nil_Header, Some NoSuchKey), s)),
      GetObject = (\<lambda>k s. case map_of s k of
                             Some content \<Rightarrow> ((Some content, None), s)
                           | None \<Rightarrow> ((None, Some NoSuchKey), s)),
      PutObject = (\<lambda>k content s. (None, AList.update k content s)),
      DeleteObject = (\<lambda>k s. (None, AList.delete k s)),
      ListObjects = (\<lambda>marker s.
                       ((\<lparr>Objects = map (\<lambda>kv. \<lparr>Key = fst kv\<rparr>) s,
                          IsTruncated = False, NextMarker = []\<rparr>, None), s))\<rparr>"

text \<open>
  A store seen only through the answers it gives: it answers the successive listing
  calls with the given results, in order, whatever marker it is sent. Past the last
  answer, and for every other call, it cannot be reached.
\<close>

definition unreachable :: go_error where
  "unreachable = OtherError ''dial tcp: i/o timeout''"

definition listing_script :: "((ListObjectsResult \<times> go_error option) list) Bucket" where
  "listing_script =
     \<lparr>GetObjectMeta = (\<lambda>k s. ((nil_Header, Some unreachable), s)),
      GetObject = (\<lambda>k s. ((None, Some unreachable), s)),
      PutObject = (\<lambda>k content s. (Some unreachable, s)),
      DeleteObject = (\<lambda>k s. (Some unreachable, s)),
      ListObjects = (\<lambda>marker s. case s of
                       [] \<Rightarrow> ((\<lparr>Objects = [], IsTruncated = False, NextMarker = []\<rparr>,
                                Some unreachable), [])
                     | r # rs \<Rightarrow> (r, rs))\<rparr>"

definition page :: "ListObjectsResult \<Rightarrow> ListObjectsResult \<times> go_error option" where
  "page p = (p, None)"

text \<open>
  A host without a MIME database (a minimal container): \<^verbatim>\<open>mime.TypeByExtension\<close>
  then knows the built-in entries of Go's \<^verbatim>\<open>mime\<close> package only, looked up by the
  lower-cased extension, and gives the empty string for any other extension.
\<close>

definition builtinTypesLower :: "(string \<times> string) list" where
  "builtinTypesLower =
     [(''.avif'', ''image/avif''),
      (''.css'', ''text/css; charset=utf-8''),
      (''.gif'', ''image/gif''),
      (''.htm'', ''text/html; charset=utf-8''),
      (''.html'', ''text/html; charset=utf-8''),
      (''.jpeg'', ''image/jpeg''),
      (''.jpg'', ''image/jpeg''),
      (''.js'', ''text/javascript; charset=utf-8''),
      (''.json'', ''application/json''),
      (''.mjs'', ''text/javascript; charset=utf-8''),
      (''.pdf'', ''application/pdf''),
      (''.png'', ''image/png''),
      (''.svg'', ''image/svg+xml''),
      (''.wasm'', ''application/wasm''),
      (''.webp'', ''image/webp''),
      (''.xml'', ''text/xml; charset=utf-8'')]"

definition toLower :: "char \<Rightarrow> char" where
  "toLower c =
     (case map_of (zip ''ABCDEFGHIJKLMNOPQRSTUVWXYZ'' ''abcdefghijklmnopqrstuvwxyz'') c of
        Some l \<Rightarrow> l
      | None \<Rightarrow> c)"

definition builtin_TypeByExtension :: "string \<Rightarrow> string" where
  "builtin_TypeByExtension ext =
     (case map_of builtinTypesLower (map toLower ext) of Some t \<Rightarrow> t | None \<Rightarrow> [])"

definition bare_host :: host where
  "bare_host =
     \<lparr>UnixNano = 1700000000123456789, Unix = 1700000000,
      rand_source = (\<lambda>seed i. 7 * i + 3),
      TypeByExtension = builtin_TypeByExtension,
      client_write = None\<rparr>"

section \<open>Reading a trace\<close>

fun header_values :: "string \<Rightarrow> event list \<Rightarrow> string list" where
  "header_values key [] = []"
| "header_values key (Header k v # es) =
     (if k = key then v # header_values key es else header_values key es)"
| "header_values key (e # es) = header_values key es"

fun responses :: "event list \<Rightarrow> (nat \<times> gin_H) list" where
  "responses [] = []"
| "responses (JSON code obj # es) = (code, obj) # responses es"
| "responses (e # es) = responses es"

fun is_call :: "event \<Rightarrow> bool" where
  "is_call (GetObjectMetaCall k) = True"
| "is_call (GetObjectCall k) = True"
| "is_call (PutObjectCall k content) = True"
| "is_call (DeleteObjectCall k) = True"
| "is_call (ListObjectsCall marker) = True"
| "is_call e = False"

definition store_calls :: "event list \<Rightarrow> event list" where
  "store_calls es = filter is_call es"

section \<open>Evaluation and traces\<close>

declare decimal.simps [simp del]
declare random_loop.simps [simp del]

lemmas stmt_defs = Let_def andThen_def emit_def log_Printf_def log_Println_def log_Fatalf_def
  c_JSON_def c_Header_def

lemmas call_defs = bucket_GetObjectMeta_def bucket_GetObject_def bucket_PutObject_def
  bucket_DeleteObject_def bucket_ListObjects_def


lemma responses_append: "responses (xs @ ys) = responses xs @ responses ys"
  by (induction xs rule: responses.induct) simp_all


lemma mem_meta:
  "map_of s k = Some content \<Longrightarrow> GetObjectMeta mem_bucket k s = ((object_meta content, None), s)"
  by (simp add: mem_bucket_def)

lemma mem_get:
  "map_of s k = Some content \<Longrightarrow> GetObject mem_bucket k s = ((Some content, None), s)"
  by (simp add: mem_bucket_def)

section \<open>The existence check\<close>

text \<open>
  The four ways out of the existence check, by what \<^verbatim>\<open>GetObjectMeta\<close> returned. The
  two structured branches are taken for a \<^verbatim>\<open>*oss.ServiceError\<close> only; a
  \<^verbatim>\<open>ServiceError\<close> value falls to the last branch, with every other error.
\<close>

lemma isexist_branches:
  "GetObjectMeta bucket name (store w) = ((meta, err), s) \<Longrightarrow>
   handle_isexist bucket name w =
     Running \<lparr>store = s, trace = trace w @
       [GetObjectMetaCall name,
        (case err of
           None \<Rightarrow> JSON 200 [(''message'', JString (''Object '' @ quoted name @ '' exists''))]
         | Some (PtrServiceError e) \<Rightarrow>
             if Code e = ''NoSuchKey''
             then JSON 200 [(''message'', JString (''Object '' @ quoted name @ '' does not exist''))]
             else JSON 500 [(''message'', JString (''Error checking object: '' @ Message e))]
         | Some e \<Rightarrow> JSON 500 [(''message'', JString (''Error: '' @ Error e))])]\<rparr>"
  by (simp add: handle_isexist_def stmt_defs call_defs split: option.splits go_error.splits)

text \<open>
  C1. The claim has the existence check answer 200 with a "does not exist" message when
  the store reports a structured not-found (\<^verbatim>\<open>NoSuchKey\<close>) error. The store reports
  it as an \<^verbatim>\<open>oss.ServiceError\<close> value, which the assertion to
  \<^verbatim>\<open>*oss.ServiceError\<close> in line 57 does not match: for a key the store does not hold,
  the check answers 500 with the raw error text.
\<close>

theorem isexist_absent_key_answers_500:
  "handle_isexist mem_bucket ''ghost'' \<lparr>store = [], trace = []\<rparr> =
     Running \<lparr>store = [], trace =
       [GetObjectMetaCall ''ghost'',
        JSON 500 [(''message'', JString
          (''Error: oss: service returned error: StatusCode=404, ErrorCode=NoSuchKey, ErrorMessage=''
           @ [CHR 0x22] @ ''The specified key does not exist.'' @ [CHR 0x22] @ '', RequestId=''))]]\<rparr>"
  by (simp add: handle_isexist_def stmt_defs call_defs mem_bucket_def NoSuchKey_def
      ServiceError_text_def decimal.simps digit_def)

section \<open>Upload, delete and the round trip\<close>


lemma delete_done:
  assumes "DeleteObject bucket objectName (store w) = (None, s)"
  shows "handle_delete bucket objectName w =
     Running \<lparr>store = s, trace = trace w @
       [DeleteObjectCall objectName,
        JSON 200 [(''status'', JString ''success''),
                  (''message'', JString (''Object '' @ quoted objectName @ '' deleted successfully''))]]\<rparr>"
  using assms by (simp add: handle_delete_def stmt_defs call_defs)

text \<open>The first half of the round trip holds: after an upload the check answers "exists".\<close>

lemma upload_then_exists:
  assumes "map_of (MultipartForm_File req) ''file'' = Some file" and "Open file = Inr content"
  shows "responses (trace (world_of (handle_isexist mem_bucket (Filename file)
            ((world_of (handle_upload mem_bucket req \<lparr>store = s, trace = []\<rparr>))\<lparr>trace := []\<rparr>)))) =
         [(200, [(''message'', JString (''Object '' @ quoted (Filename file) @ '' exists''))])]"
  using assms
  by (simp add: handle_upload_def c_FormFile_def handle_isexist_def stmt_defs call_defs mem_bucket_def
      update_conv')

text \<open>
  C2. The claim has upload, delete, existence check end in the "does not exist" answer.
  The three requests in a row on the empty store, for a file named \<^verbatim>\<open>a.txt\<close>: the
  upload and the delete answer 200, and the existence check then answers 500 with
  the error text, for the reason given under C1.
\<close>

theorem upload_delete_isexist_answers_500:
  "responses (trace (world_of
     (handle_isexist mem_bucket ''a.txt''
       (world_of (handle_delete mem_bucket ''a.txt''
         (world_of (handle_upload mem_bucket
            \<lparr>MultipartForm_File = [(''file'', \<lparr>Filename = ''a.txt'', Open = Inr ''hello''\<rparr>)]\<rparr>
            \<lparr>store = [], trace = []\<rparr>))))))) =
   [(200, [(''message'', JString ''File uploaded successfully'')]),
    (200, [(''status'', JString ''success''),
           (''message'', JString ''Object 'a.txt' deleted successfully'')]),
    (500, [(''message'', JString
          (''Error: oss: service returned error: StatusCode=404, ErrorCode=NoSuchKey, ErrorMessage=''
           @ [CHR 0x22] @ ''The specified key does not exist.'' @ [CHR 0x22] @ '', RequestId=''))])]"
  by (simp add: handle_upload_def c_FormFile_def handle_delete_def handle_isexist_def
      stmt_defs call_defs mem_bucket_def NoSuchKey_def ServiceError_text_def decimal.simps digit_def
      quoted_def)

section \<open>The download\<close>

text \<open>Everything a download does once the metadata and the content are fetched.\<close>

lemma download_sent:
  assumes "GetObjectMeta bucket objectName (store w) = ((meta, None), s1)"
    and "GetObject bucket objectName s1 = ((Some content, None), s2)"
  shows "handle_download h bucket objectName w =
     Running \<lparr>store = s2, trace = trace w @
       [GetObjectMetaCall objectName, GetObjectCall objectName,
        Header ''Content-Disposition''
          (''attachment; filename='' @ generateRandomFilename h (download_ext objectName)),
        Header ''Content-Type'' (TypeByExtension h (download_ext objectName)),
        Header ''Content-Length'' (sprint_d_strings (meta ''Content-Length'')),
        Copy content] @
       (case client_write h of
          None \<Rightarrow>
            [Log (''File downloaded successfully: '' @ generateRandomFilename h (download_ext objectName)),
             JSON 200 [(''message'', JString ''File downloaded successfully''),
                       (''file'', JString (generateRandomFilename h (download_ext objectName)))]]
        | Some err \<Rightarrow>
            [Log (''Failed to send file to client: '' @ Error err),
             JSON 500 [(''message'', JString ''Failed to send file to client'')]])\<rparr>"
  using assms
  by (simp add: handle_download_def download_send_def io_Copy_def stmt_defs call_defs
      split: option.splits)

text \<open>
  C4. The claim has the download set \<^verbatim>\<open>Content-Length\<close> to the object's size. Line
  102 reads the size as \<^verbatim>\<open>meta["Content-Length"]\<close>, a \<^verbatim>\<open>[]string\<close>, and line 116
  prints it with \<^verbatim>\<open>%d\<close>: for an object of 5 bytes the header is set to
  \<^verbatim>\<open>[%!d(string=5)]\<close>, not to \<^verbatim>\<open>5\<close>.
\<close>

theorem download_content_length_is_not_the_size:
  "header_values ''Content-Length''
     (trace (world_of (handle_download bare_host mem_bucket ''a.txt''
        \<lparr>store = [(''a.txt'', ''hello'')], trace = []\<rparr>))) = [''[%!d(string=5)]'']"
  by (simp add: download_sent [OF mem_meta mem_get] object_meta_def sprint_d_strings_def
      bad_verb_d_def decimal.simps digit_def bare_host_def)

subsection \<open>The generated filename\<close>








subsection \<open>The content type\<close>




section \<open>Upload requests\<close>

text \<open>
  C7. For every upload request whose multipart form has no \<^verbatim>\<open>file\<close> field, the
  handler logs the failure, answers 400 with the body
  \<^verbatim>\<open>{"message": "Failed to get file"}\<close> and returns: the store is as it was and
  no call on the bucket was made, whatever the bucket.
\<close>

theorem upload_without_file:
  assumes "map_of (MultipartForm_File req) ''file'' = None"
  shows "handle_upload bucket req w =
           Running (w\<lparr>trace := trace w @
             [Log ''Failed to get file from form: http: no such file'',
              JSON 400 [(''message'', JString ''Failed to get file'')]]\<rparr>)
         \<and> store_calls (trace (world_of (handle_upload bucket req w))) = store_calls (trace w)"
  using assms
  by (simp add: handle_upload_def c_FormFile_def stmt_defs store_calls_def)

theorem upload_without_file_witness:
  "handle_upload mem_bucket \<lparr>MultipartForm_File = [(''attachment'', \<lparr>Filename = ''a.txt'', Open = Inr ''hello''\<rparr>)]\<rparr>
     \<lparr>store = [(''b'', ''x'')], trace = []\<rparr> =
   Running \<lparr>store = [(''b'', ''x'')], trace =
     [Log ''Failed to get file from form: http: no such file'',
      JSON 400 [(''message'', JString ''Failed to get file'')]]\<rparr>"
  using upload_without_file [of "\<lparr>MultipartForm_File = [(''attachment'', \<lparr>Filename = ''a.txt'', Open = Inr ''hello''\<rparr>)]\<rparr>"
      mem_bucket "\<lparr>store = [(''b'', ''x'')], trace = []\<rparr>"]
  by simp




section \<open>Listing\<close>

lemma script_truncated:
  "IsTruncated p \<Longrightarrow>
   list_loop listing_script marker acc \<lparr>store = page p # rest, trace = t\<rparr> =
   list_loop listing_script (NextMarker p) (acc @ map Key (Objects p))
     \<lparr>store = rest, trace = t @ [ListObjectsCall marker]\<rparr>"
  by (subst list_loop.simps)
     (simp add: call_defs listing_script_def page_def list_check_def emit_def)

lemma script_last:
  "\<not> IsTruncated p \<Longrightarrow>
   list_loop listing_script marker acc \<lparr>store = page p # rest, trace = t\<rparr> =
   Some (list_respond (acc @ map Key (Objects p))
     \<lparr>store = rest, trace = t @ [ListObjectsCall marker]\<rparr>)"
  by (subst list_loop.simps)
     (simp add: call_defs listing_script_def page_def list_check_def emit_def)

lemma script_failed:
  "list_loop listing_script marker acc \<lparr>store = (lsRes, Some err) # rest, trace = t\<rparr> =
   Some (Exited 1 \<lparr>store = rest, trace = t @
     [ListObjectsCall marker, Log (''Failed to list objects: '' @ Error err)]\<rparr>)"
  by (subst list_loop.simps)
     (simp add: call_defs listing_script_def list_check_def stmt_defs)

text \<open>
  Through a run of truncated pages the loop follows the markers: it calls with its
  marker, then with each page's \<^verbatim>\<open>NextMarker\<close>, and collects the keys in order.
\<close>

lemma script_pages:
  "\<forall>p \<in> set pages. IsTruncated p \<Longrightarrow>
   list_loop listing_script marker acc \<lparr>store = map page pages @ rest, trace = t\<rparr> =
   list_loop listing_script (last (marker # map NextMarker pages))
     (acc @ concat (map (\<lambda>p. map Key (Objects p)) pages))
     \<lparr>store = rest, trace = t @ map ListObjectsCall (butlast (marker # map NextMarker pages))\<rparr>"
proof (induction pages arbitrary: marker acc t)
  case Nil
  then show ?case by simp
next
  case (Cons p pages)
  then have "IsTruncated p" and rest: "\<forall>p \<in> set pages. IsTruncated p"
    by simp_all
  then show ?case
    using Cons.IH [OF rest, of "NextMarker p" "acc @ map Key (Objects p)" "t @ [ListObjectsCall marker]"]
    by (simp add: script_truncated)
qed

lemma markers_then_last:
  "butlast (marker # map NextMarker pages) @ [last (marker # map NextMarker pages)] =
   marker # map NextMarker pages"
  by (rule append_butlast_last_id) simp

lemma list_respond_world:
  "list_respond allObjects w =
     Running (w\<lparr>trace := trace w @
       [Log ''All objects have been listed.'',
        JSON 200 [(''status'', JString ''success''),
                  (''message'', JString ''All objects have been listed''),
                  (''objects'', JStrings allObjects)]]\<rparr>)"
  by (simp add: list_respond_def stmt_defs)

lemma list_loop_frame:
  assumes "list_loop bucket marker acc w = Some r"
  shows "(\<exists>markers. store_calls (trace (world_of r)) =
            store_calls (trace w) @ map ListObjectsCall markers)
         \<and> ((\<forall>m s. snd (ListObjects bucket m s) = s) \<longrightarrow> store (world_of r) = store w)
         \<and> fst ` set (responses (trace (world_of r))) \<subseteq> insert 200 (fst ` set (responses (trace w)))"
proof (induction rule: list_loop.raw_induct [OF _ assms])
  case (1 list_loop bucket marker acc w r)
  obtain lsRes err s where l: "ListObjects bucket marker (store w) = ((lsRes, err), s)"
    by (metis prod.exhaust)
  let ?w1 = "w\<lparr>store := s, trace := trace w @ [ListObjectsCall marker]\<rparr>"
  have q: "(\<forall>m s. snd (ListObjects bucket m s) = s) \<longrightarrow> s = store w"
    using l by (metis snd_conv)
  show ?case
  proof (cases err)
    case (Some e)
    with 1(2) l have "r = Exited 1 (?w1\<lparr>trace := trace ?w1 @ [Log (''Failed to list objects: '' @ Error e)]\<rparr>)"
      by (simp add: call_defs list_check_def stmt_defs)
    with q show ?thesis
      by (auto simp: store_calls_def responses_append intro: exI [of _ "[marker]"])
  next
    case None
    show ?thesis
    proof (cases "IsTruncated lsRes")
      case True
      with None 1(2) l have "list_loop bucket (NextMarker lsRes) (acc @ map Key (Objects lsRes)) ?w1 = Some r"
        by (simp add: call_defs list_check_def emit_def Let_def)
      from 1(1) [OF this] obtain markers where
        m: "store_calls (trace (world_of r)) = store_calls (trace ?w1) @ map ListObjectsCall markers"
        and s: "(\<forall>m s. snd (ListObjects bucket m s) = s) \<longrightarrow> store (world_of r) = store ?w1"
        and a: "fst ` set (responses (trace (world_of r))) \<subseteq> insert 200 (fst ` set (responses (trace ?w1)))"
        by blast
      from m have "store_calls (trace (world_of r)) =
          store_calls (trace w) @ map ListObjectsCall (marker # markers)"
        by (simp add: store_calls_def)
      then have "\<exists>markers. store_calls (trace (world_of r)) =
          store_calls (trace w) @ map ListObjectsCall markers" ..
      moreover from s q have
        "(\<forall>m s. snd (ListObjects bucket m s) = s) \<longrightarrow> store (world_of r) = store w"
        by simp
      moreover from a have
        "fst ` set (responses (trace (world_of r))) \<subseteq> insert 200 (fst ` set (responses (trace w)))"
        by (simp add: responses_append)
      ultimately show ?thesis by blast
    next
      case False
      with None 1(2) l have "r = list_respond (acc @ map Key (Objects lsRes)) ?w1"
        by (simp add: call_defs list_check_def emit_def Let_def)
      with q show ?thesis
        by (auto simp: list_respond_world store_calls_def responses_append intro: exI [of _ "[marker]"])
    qed
  qed
qed

text \<open>
  C3. For every sequence of pages the store answers with, all truncated but the last:
  the handler calls \<^verbatim>\<open>ListObjects\<close> with the empty marker first and then with the
  \<^verbatim>\<open>NextMarker\<close> of each truncated page, stops at the first page that is not
  truncated (the answers after it are not asked for), and answers 200 with the keys
  of all those pages, page after page, in the order the store gave them.
\<close>

theorem list_follows_markers:
  assumes "\<forall>p \<in> set pages. IsTruncated p" and "\<not> IsTruncated final"
  shows "handle_list listing_script \<lparr>store = map page (pages @ [final]) @ later, trace = t\<rparr> =
     Some (Running \<lparr>store = later, trace = t @
       map ListObjectsCall ([] # map NextMarker pages) @
       [Log ''All objects have been listed.'',
        JSON 200 [(''status'', JString ''success''),
                  (''message'', JString ''All objects have been listed''),
                  (''objects'', JStrings (concat (map (\<lambda>p. map Key (Objects p)) (pages @ [final]))))]]\<rparr>)"
proof -
  let ?ms = "[] # map NextMarker pages"
  from script_pages [OF assms(1), of "[]" "[]" "page final # later" t]
  have "handle_list listing_script \<lparr>store = map page (pages @ [final]) @ later, trace = t\<rparr> =
     list_loop listing_script (last ?ms) (concat (map (\<lambda>p. map Key (Objects p)) pages))
       \<lparr>store = page final # later, trace = t @ map ListObjectsCall (butlast ?ms)\<rparr>"
    by (simp add: handle_list_def)
  also have "\<dots> = Some (list_respond (concat (map (\<lambda>p. map Key (Objects p)) (pages @ [final])))
       \<lparr>store = later, trace = t @ map ListObjectsCall (butlast ?ms @ [last ?ms])\<rparr>)"
    using assms(2) by (simp add: script_last)
  finally show ?thesis
    by (simp only: markers_then_last) (simp add: list_respond_world)
qed

theorem list_follows_markers_witness:
  "handle_list listing_script
     \<lparr>store = [page \<lparr>Objects = [\<lparr>Key = ''a''\<rparr>, \<lparr>Key = ''b''\<rparr>], IsTruncated = True, NextMarker = ''b''\<rparr>,
               page \<lparr>Objects = [\<lparr>Key = ''c''\<rparr>], IsTruncated = True, NextMarker = ''c''\<rparr>,
               page \<lparr>Objects = [\<lparr>Key = ''d''\<rparr>], IsTruncated = False, NextMarker = []\<rparr>,
               page \<lparr>Objects = [\<lparr>Key = ''e''\<rparr>], IsTruncated = False, NextMarker = []\<rparr>],
      trace = []\<rparr> =
   Some (Running
     \<lparr>store = [page \<lparr>Objects = [\<lparr>Key = ''e''\<rparr>], IsTruncated = False, NextMarker = []\<rparr>],
      trace = [ListObjectsCall [], ListObjectsCall ''b'', ListObjectsCall ''c'',
               Log ''All objects have been listed.'',
               JSON 200 [(''status'', JString ''success''),
                         (''message'', JString ''All objects have been listed''),
                         (''objects'', JStrings [''a'', ''b'', ''c'', ''d''])]]\<rparr>)"
  using list_follows_markers
    [of "[\<lparr>Objects = [\<lparr>Key = ''a''\<rparr>, \<lparr>Key = ''b''\<rparr>], IsTruncated = True, NextMarker = ''b''\<rparr>,
          \<lparr>Objects = [\<lparr>Key = ''c''\<rparr>], IsTruncated = True, NextMarker = ''c''\<rparr>]"
        "\<lparr>Objects = [\<lparr>Key = ''d''\<rparr>], IsTruncated = False, NextMarker = []\<rparr>"
        "[page \<lparr>Objects = [\<lparr>Key = ''e''\<rparr>], IsTruncated = False, NextMarker = []\<rparr>]" "[]"]
  by simp

section \<open>The handlers that only read\<close>

lemma isexist_frame:
  "store_calls (trace (world_of (handle_isexist bucket name w))) =
     store_calls (trace w) @ [GetObjectMetaCall name]
   \<and> store (world_of (handle_isexist bucket name w)) = snd (GetObjectMeta bucket name (store w))"
proof -
  obtain meta err s where "GetObjectMeta bucket name (store w) = ((meta, err), s)"
    by (metis prod.exhaust)
  then show ?thesis
    by (simp add: isexist_branches store_calls_def split: option.splits go_error.splits)
qed

text \<open>
  C10. The existence check makes one call on the bucket, \<^verbatim>\<open>GetObjectMeta\<close>, and
  the listing, when it returns, has made \<^verbatim>\<open>ListObjects\<close> calls only: neither ever
  calls \<^verbatim>\<open>PutObject\<close> or \<^verbatim>\<open>DeleteObject\<close>. So on every bucket whose two queries
  leave the store as it is, both handlers leave the store as it is.
\<close>

theorem read_only_handlers:
  "store_calls (trace (world_of (handle_isexist bucket name w))) =
     store_calls (trace w) @ [GetObjectMetaCall name]
   \<and> ((\<forall>k s. snd (GetObjectMeta bucket k s) = s) \<longrightarrow>
        store (world_of (handle_isexist bucket name w)) = store w)
   \<and> (handle_list bucket w = Some r \<longrightarrow>
        (\<exists>markers. store_calls (trace (world_of r)) =
           store_calls (trace w) @ map ListObjectsCall markers)
        \<and> ((\<forall>m s. snd (ListObjects bucket m s) = s) \<longrightarrow> store (world_of r) = store w))"
  using list_loop_frame [of bucket "[]" "[]" w r]
  by (simp add: isexist_frame handle_list_def)

lemma mem_list:
  "handle_list mem_bucket \<lparr>store = s, trace = t\<rparr> =
     Some (Running \<lparr>store = s, trace = t @
       [ListObjectsCall [],
        Log ''All objects have been listed.'',
        JSON 200 [(''status'', JString ''success''),
                  (''message'', JString ''All objects have been listed''),
                  (''objects'', JStrings (map fst s))]]\<rparr>)"
  unfolding handle_list_def
  by (subst list_loop.simps)
     (simp add: call_defs mem_bucket_def list_check_def emit_def list_respond_world comp_def)

theorem read_only_handlers_witness:
  "store (world_of (handle_isexist mem_bucket ''a'' \<lparr>store = [(''a'', ''x'')], trace = []\<rparr>)) = [(''a'', ''x'')]
   \<and> store_calls (trace (world_of (handle_isexist mem_bucket ''a'' \<lparr>store = [(''a'', ''x'')], trace = []\<rparr>))) =
       [GetObjectMetaCall ''a'']
   \<and> handle_list mem_bucket \<lparr>store = [(''a'', ''x'')], trace = []\<rparr> =
       Some (Running \<lparr>store = [(''a'', ''x'')], trace =
         [ListObjectsCall [],
          Log ''All objects have been listed.'',
          JSON 200 [(''status'', JString ''success''),
                    (''message'', JString ''All objects have been listed''),
                    (''objects'', JStrings [''a''])]]\<rparr>)
   \<and> (\<exists>markers. store_calls
         [ListObjectsCall [],
          Log ''All objects have been listed.'',
          JSON 200 [(''status'', JString ''success''),
                    (''message'', JString ''All objects have been listed''),
                    (''objects'', JStrings [''a''])]] = map ListObjectsCall markers)"
proof -
  let ?w = "\<lparr>store = [(''a'', ''x'')], trace = []\<rparr>"
  let ?r = "Running \<lparr>store = [(''a'', ''x'')], trace =
         [ListObjectsCall [],
          Log ''All objects have been listed.'',
          JSON 200 [(''status'', JString ''success''),
                    (''message'', JString ''All objects have been listed''),
                    (''objects'', JStrings [''a''])]]\<rparr>"
  have q1: "\<forall>k s. snd (GetObjectMeta mem_bucket k s) = s"
    by (simp add: mem_bucket_def split: option.splits)
  have q2: "\<forall>m s. snd (ListObjects mem_bucket m s) = s"
    by (simp add: mem_bucket_def)
  have l: "handle_list mem_bucket ?w = Some ?r"
    by (simp add: mem_list)
  from read_only_handlers [of mem_bucket "''a''" ?w ?r] q1 q2 l show ?thesis
    by (simp add: store_calls_def)
qed

section \<open>The fatal paths\<close>

text \<open>
  What the upload and the download can answer at all: the bodies of the \<^verbatim>\<open>c.JSON\<close>
  calls that follow a \<^verbatim>\<open>log.Fatalf\<close> are not among them.
\<close>

lemma upload_responses:
  "set (responses (trace (world_of (handle_upload bucket req w)))) \<subseteq>
     set (responses (trace w)) \<union>
     {(400, [(''message'', JString ''Failed to get file'')]),
      (200, [(''message'', JString ''File uploaded successfully'')])}"
  by (auto simp: handle_upload_def c_FormFile_def stmt_defs call_defs responses_append
      split: option.splits sum.splits prod.splits)

lemma download_responses:
  "set (responses (trace (world_of (handle_download h bucket objectName w)))) \<subseteq>
     set (responses (trace w)) \<union>
     {(500, [(''message'', JString ''Failed to get object metadata'')]),
      (500, [(''message'', JString ''Failed to send file to client'')]),
      (200, [(''message'', JString ''File downloaded successfully''),
             (''file'', JString (generateRandomFilename h (download_ext objectName)))])}"
  by (auto simp: handle_download_def download_send_def io_Copy_def stmt_defs call_defs
      responses_append split: option.splits sum.splits prod.splits)

text \<open>
  C9. When opening the uploaded file fails, when the upload to the store fails, when
  fetching the content for a download fails, and when a listing call fails after any
  number of truncated pages, the handler logs the failure and the process exits with
  status 1: the trace ends with the log line and holds no answer. The \<^verbatim>\<open>c.JSON\<close>
  calls written after those failures never run: the upload answers nothing but the
  missing-file 400 and the success 200, the download nothing but its metadata and
  client-write 500 and its success 200, and the listing nothing but 200.
\<close>

theorem fatal_paths:
  "(map_of (MultipartForm_File req) ''file'' = Some fh \<and> Open fh = Inl err \<longrightarrow>
      handle_upload bucket req w =
        Exited 1 (w\<lparr>trace := trace w @ [Log (''Failed to open file: '' @ Error err)]\<rparr>))
   \<and> (map_of (MultipartForm_File req) ''file'' = Some fh \<and> Open fh = Inr content \<and>
      PutObject bucket (Filename fh) content (store w) = (Some err, s) \<longrightarrow>
      handle_upload bucket req w =
        Exited 1 \<lparr>store = s, trace = trace w @
          [PutObjectCall (Filename fh) content, Log (''Failed to fetch URL: '' @ Error err)]\<rparr>)
   \<and> (GetObjectMeta bucket objectName (store w) = ((meta, None), s1) \<and>
      GetObject bucket objectName s1 = ((body, Some err), s2) \<longrightarrow>
      handle_download h bucket objectName w =
        Exited 1 \<lparr>store = s2, trace = trace w @
          [GetObjectMetaCall objectName, GetObjectCall objectName,
           Log (''Failed to get object: '' @ Error err)]\<rparr>)
   \<and> ((\<forall>p \<in> set pages. IsTruncated p) \<longrightarrow>
      handle_list listing_script \<lparr>store = map page pages @ (lsRes, Some err) # later, trace = t\<rparr> =
        Some (Exited 1 \<lparr>store = later, trace = t @
          map ListObjectsCall ([] # map NextMarker pages) @
          [Log (''Failed to list objects: '' @ Error err)]\<rparr>))
   \<and> set (responses (trace (world_of (handle_upload bucket req w)))) \<subseteq>
       set (responses (trace w)) \<union>
       {(400, [(''message'', JString ''Failed to get file'')]),
        (200, [(''message'', JString ''File uploaded successfully'')])}
   \<and> set (responses (trace (world_of (handle_download h bucket objectName w)))) \<subseteq>
       set (responses (trace w)) \<union>
       {(500, [(''message'', JString ''Failed to get object metadata'')]),
        (500, [(''message'', JString ''Failed to send file to client'')]),
        (200, [(''message'', JString ''File downloaded successfully''),
               (''file'', JString (generateRandomFilename h (download_ext objectName)))])}
   \<and> (handle_list bucket w = Some r \<longrightarrow>
        fst ` set (responses (trace (world_of r))) \<subseteq> insert 200 (fst ` set (responses (trace w))))"
proof -
  have "(\<forall>p \<in> set pages. IsTruncated p) \<Longrightarrow>
      handle_list listing_script \<lparr>store = map page pages @ (lsRes, Some err) # later, trace = t\<rparr> =
        Some (Exited 1 \<lparr>store = later, trace = t @
          map ListObjectsCall ([] # map NextMarker pages) @
          [Log (''Failed to list objects: '' @ Error err)]\<rparr>)"
  proof -
    assume "\<forall>p \<in> set pages. IsTruncated p"
    from script_pages [OF this, of "[]" "[]" "(lsRes, Some err) # later" t]
    have "handle_list listing_script \<lparr>store = map page pages @ (lsRes, Some err) # later, trace = t\<rparr> =
        Some (Exited 1 \<lparr>store = later, trace = (t @
          map ListObjectsCall (butlast ([] # map NextMarker pages))) @
          [ListObjectsCall (last ([] # map NextMarker pages)),
           Log (''Failed to list objects: '' @ Error err)]\<rparr>)"
      by (simp only: handle_list_def script_failed)
    also have "(t @ map ListObjectsCall (butlast ([] # map NextMarker pages))) @
          [ListObjectsCall (last ([] # map NextMarker pages)),
           Log (''Failed to list objects: '' @ Error err)] =
        t @ map ListObjectsCall (butlast ([] # map NextMarker pages) @ [last ([] # map NextMarker pages)]) @
          [Log (''Failed to list objects: '' @ Error err)]"
      by simp
    finally show ?thesis
      by (simp only: markers_then_last)
  qed
  moreover have "handle_list bucket w = Some r \<Longrightarrow>
        fst ` set (responses (trace (world_of r))) \<subseteq> insert 200 (fst ` set (responses (trace w)))"
    using list_loop_frame [of bucket "[]" "[]" w r] by (simp add: handle_list_def)
  moreover note upload_responses [of bucket req w] download_responses [of h bucket objectName w]
  ultimately show ?thesis
    by (simp add: handle_upload_def c_FormFile_def handle_download_def stmt_defs call_defs)
qed

theorem fatal_paths_witness:
  "handle_upload mem_bucket
     \<lparr>MultipartForm_File = [(''file'', \<lparr>Filename = ''a.txt'', Open = Inl (OtherError ''open a.txt: too many open files'')\<rparr>)]\<rparr>
     \<lparr>store = [], trace = []\<rparr> =
     Exited 1 \<lparr>store = [], trace = [Log ''Failed to open file: open a.txt: too many open files'']\<rparr>
   \<and> handle_upload listing_script
     \<lparr>MultipartForm_File = [(''file'', \<lparr>Filename = ''a.txt'', Open = Inr ''hello''\<rparr>)]\<rparr>
     \<lparr>store = [], trace = []\<rparr> =
     Exited 1 \<lparr>store = [], trace =
       [PutObjectCall ''a.txt'' ''hello'', Log ''Failed to fetch URL: dial tcp: i/o timeout'']\<rparr>
   \<and> handle_download bare_host (mem_bucket\<lparr>GetObject := \<lambda>k s. ((None, Some unreachable), s)\<rparr>) ''a.txt''
     \<lparr>store = [(''a.txt'', ''hello'')], trace = []\<rparr> =
     Exited 1 \<lparr>store = [(''a.txt'', ''hello'')], trace =
       [GetObjectMetaCall ''a.txt'', GetObjectCall ''a.txt'',
        Log ''Failed to get object: dial tcp: i/o timeout'']\<rparr>
   \<and> handle_list listing_script
     \<lparr>store = [page \<lparr>Objects = [\<lparr>Key = ''a''\<rparr>], IsTruncated = True, NextMarker = ''a''\<rparr>,
               (\<lparr>Objects = [], IsTruncated = False, NextMarker = []\<rparr>, Some unreachable)],
      trace = []\<rparr> =
     Some (Exited 1 \<lparr>store = [], trace =
       [ListObjectsCall [], ListObjectsCall ''a'', Log ''Failed to list objects: dial tcp: i/o timeout'']\<rparr>)"
proof -
  let ?w = "\<lparr>store = [] :: (string \<times> bytes) list, trace = []\<rparr>"
  let ?f1 = "\<lparr>Filename = ''a.txt'', Open = Inl (OtherError ''open a.txt: too many open files'')\<rparr>"
  let ?f2 = "\<lparr>Filename = ''a.txt'', Open = Inr ''hello''\<rparr>"
  let ?b3 = "mem_bucket\<lparr>GetObject := \<lambda>k s. ((None, Some unreachable), s)\<rparr>"
  let ?w3 = "\<lparr>store = [(''a.txt'', ''hello'')], trace = []\<rparr>"
  let ?p = "\<lparr>Objects = [\<lparr>Key = ''a''\<rparr>], IsTruncated = True, NextMarker = ''a''\<rparr>"
  have "handle_upload mem_bucket \<lparr>MultipartForm_File = [(''file'', ?f1)]\<rparr> ?w =
     Exited 1 \<lparr>store = [], trace = [Log ''Failed to open file: open a.txt: too many open files'']\<rparr>"
    using fatal_paths [where req = "\<lparr>MultipartForm_File = [(''file'', ?f1)]\<rparr>" and fh = ?f1
        and err = "OtherError ''open a.txt: too many open files''" and bucket = mem_bucket and w = ?w]
    by simp
  moreover have "handle_upload listing_script \<lparr>MultipartForm_File = [(''file'', ?f2)]\<rparr>
       \<lparr>store = [], trace = []\<rparr> =
     Exited 1 \<lparr>store = [], trace =
       [PutObjectCall ''a.txt'' ''hello'', Log ''Failed to fetch URL: dial tcp: i/o timeout'']\<rparr>"
    using fatal_paths [where req = "\<lparr>MultipartForm_File = [(''file'', ?f2)]\<rparr>" and fh = ?f2
        and content = "''hello''" and err = unreachable and bucket = listing_script
        and w = "\<lparr>store = [], trace = []\<rparr>" and s = "[]"]
    by (simp add: listing_script_def unreachable_def)
  moreover have "handle_download bare_host ?b3 ''a.txt'' ?w3 =
     Exited 1 \<lparr>store = [(''a.txt'', ''hello'')], trace =
       [GetObjectMetaCall ''a.txt'', GetObjectCall ''a.txt'',
        Log ''Failed to get object: dial tcp: i/o timeout'']\<rparr>"
    using fatal_paths [where bucket = ?b3 and objectName = "''a.txt''" and w = ?w3
        and meta = "object_meta ''hello''" and ?s1.0 = "[(''a.txt'', ''hello'')]"
        and body = None and err = unreachable and ?s2.0 = "[(''a.txt'', ''hello'')]" and h = bare_host]
    by (simp add: mem_bucket_def unreachable_def)
  moreover have "handle_list listing_script
     \<lparr>store = [page ?p, (\<lparr>Objects = [], IsTruncated = False, NextMarker = []\<rparr>, Some unreachable)],
      trace = []\<rparr> =
     Some (Exited 1 \<lparr>store = [], trace =
       [ListObjectsCall [], ListObjectsCall ''a'', Log ''Failed to list objects: dial tcp: i/o timeout'']\<rparr>)"
    using fatal_paths [where pages = "[?p]" and lsRes = "\<lparr>Objects = [], IsTruncated = False, NextMarker = []\<rparr>"
        and err = unreachable and later = "[]" and t = "[]",
        THEN conjunct2, THEN conjunct2, THEN conjunct2, THEN conjunct1]
    by (simp add: unreachable_def)
  ultimately show ?thesis by simp
qed

end
